theory Spec2Isabelle
  imports Main "HOL-Library.Word"
begin

section \<open>Errors\<close>

text \<open>
  The error kinds of \<^verbatim>\<open>github.com/corestoreio/errors\<close> that the modelled functions
  create or test for; every other error (a driver error, an I/O error) has the kind
  \<open>Unclassified\<close>.  An error value carries its kind and a message text; where the
  source builds the message from a format string, the text here is the fixed part of it.
\<close>

datatype kind = NotSupported | NotFound | NotValid | Unclassified

datatype error = Error kind string | Panic string

text \<open>
  A run-time panic (a nil pointer dereference) is not an error value in Go; it is the
  value \<open>Panic\<close> here so that it is a result of the model like any other.
\<close>

fun errKind :: "error \<Rightarrow> kind" where
  "errKind (Error k m) = k"
| "errKind (Panic m) = Unclassified"

text \<open>
  \<^verbatim>\<open>errors.WithStack(err)\<close> attaches a stack trace to a non-nil error; kind and message
  stay as they are.  The stack trace is not part of the model.
\<close>

definition WithStack :: "error \<Rightarrow> error" where
  "WithStack err = err"

text \<open>\<^verbatim>\<open>errors.Wrapf(err, msg)\<close> puts a message in front; the kind stays.\<close>

fun Wrapf :: "error \<Rightarrow> string \<Rightarrow> error" where
  "Wrapf (Error k m) msg = Error k (msg @ '': '' @ m)"
| "Wrapf (Panic m) msg = Panic m"

text \<open>\<^verbatim>\<open>errors.Is(err, kind)\<close>: the error has that kind.\<close>

definition errIs :: "error \<Rightarrow> kind \<Rightarrow> bool" where
  "errIs err k = (errKind err = k)"

section \<open>Time\<close>

text \<open>
  A \<^verbatim>\<open>time.Time\<close> is an instant, counted here in nanoseconds from the zero value of
  the type (the zero \<^verbatim>\<open>time.Time\<close> is \<open>0\<close>).  \<^verbatim>\<open>Time.Sub\<close> returns a
  \<^verbatim>\<open>time.Duration\<close>, a signed 64-bit count of nanoseconds, and saturates at the largest
  and the smallest duration instead of wrapping.
\<close>

type_synonym time = int

definition maxDuration :: int where
  "maxDuration = 2 ^ 63 - 1"

definition minDuration :: int where
  "minDuration = - (2 ^ 63)"

definition Second :: int where
  "Second = 1000000000"

definition Millisecond :: int where
  "Millisecond = 1000000"

definition Sub :: "time \<Rightarrow> time \<Rightarrow> int" where
  "Sub t u =
     (let d = t - u
      in if maxDuration < d then maxDuration
         else if d < minDuration then minDuration
         else d)"

section \<open>Data of the replication client\<close>

text \<open>Go's \<^verbatim>\<open>uint\<close> and \<^verbatim>\<open>int\<close> on a 64-bit platform, \<^verbatim>\<open>int32\<close>, \<^verbatim>\<open>uint32\<close>, \<^verbatim>\<open>uint16\<close>.\<close>

type_synonym uint = "64 word"
type_synonym goint = "64 word"
type_synonym int32 = "32 word"
type_synonym uint32 = "32 word"
type_synonym uint16 = "16 word"
type_synonym uint8 = "8 word"

text \<open>
  \<^verbatim>\<open>ddl.MasterStatus\<close>: the binlog coordinates.  The functions modelled here read and
  write the fields \<open>File\<close> and \<open>Position\<close> only.
\<close>

record MasterStatus =
  File :: string
  Position :: uint

text \<open>
  \<^verbatim>\<open>mysql.Config\<close>, the parsed DSN.  \<open>Params\<close> is a Go map that may be nil
  (\<open>None\<close>).
\<close>

record Config =
  User :: string
  Passwd :: string
  Net :: string
  Addr :: string
  DBName :: string
  Params :: "(string \<rightharpoonup> string) option"

text \<open>\<^verbatim>\<open>myreplicator.BinlogSyncerConfig\<close>, as \<^verbatim>\<open>withPrepareSyncer\<close> fills it.\<close>

record BinlogSyncerConfig =
  ServerID :: uint32
  Flavor :: string
  Host :: string
  Port :: uint16
  SyncUser :: string
  SyncPassword :: string

text \<open>
  \<^verbatim>\<open>ddl.Table\<close>, an entry of the table cache: the fields that
  \<^verbatim>\<open>WithCreateTable\<close> writes.
\<close>

record Column =
  Field :: string
  ColumnType :: string
  Null :: string

record Table =
  Name :: string
  Schema :: string
  Columns :: "Column list"
  CreateSyntax :: string
  IsView :: bool

text \<open>
  \<^verbatim>\<open>ddl.Tables\<close>: the schema name and the map \<^verbatim>\<open>tm\<close> from table name to table.  The
  map holds pointers in the source; here an update of a table that the map holds writes
  the new value back under the same key.
\<close>

record Tables =
  TablesSchema :: string
  tm :: "string \<rightharpoonup> Table"

text \<open>
  What the client does to its collaborators, in the order of the calls:
  \<^item> \<open>SinkSet ms r\<close>: \<^verbatim>\<open>cfgBackend.Set(ConfigPathBackendPosition, bytes)\<close> was called
    with the serialised master status \<open>ms\<close> and returned \<open>r\<close> (\<open>None\<close> is nil);
  \<^item> \<open>LogDebug\<close>, \<open>LogInfo\<close>: one line written to the logger;
  \<^item> \<open>SyncerClose\<close>: \<^verbatim>\<open>syncer.Close()\<close>; \<open>PoolClose\<close>: \<^verbatim>\<open>dbcp.Close()\<close>;
  \<^item> \<open>WgWait\<close>: \<^verbatim>\<open>wg.Wait()\<close>, the join of the background worker;
  \<^item> \<open>TableLoad n\<close>: the load function handed to the single-flight group ran for the
    table \<open>n\<close>.
\<close>

datatype effect =
    SinkSet MasterStatus "error option"
  | LogDebug
  | LogInfo
  | SyncerClose
  | PoolClose
  | WgWait
  | TableLoad string

text \<open>
  \<^verbatim>\<open>Canal\<close>.  \<open>cfgBackend\<close>, \<open>syncer\<close> and \<open>dbcp\<close> are nil (\<open>None\<close>) or set; the
  connection pool is represented by the DSN configuration it was opened with.  The
  logger is represented by its two level tests.  \<open>effects\<close> is the record of the calls
  made to the collaborators; it is not a field of the source.
\<close>

record Canal =
  dsn :: Config
  canalParams :: "string \<rightharpoonup> string"
  cfgBackend :: "nat option"
  masterStatus :: MasterStatus
  masterLastSaveTime :: time
  syncer :: "BinlogSyncerConfig option"
  dbcp :: "Config option"
  tables :: Tables
  closed :: int32
  logIsDebug :: bool
  logIsInfo :: bool
  effects :: "effect list"

section \<open>Master position tracker\<close>

text \<open>
  \<^verbatim>\<open>Canal.masterSave(fileName, pos)\<close>.  \<open>now\<close> is what \<^verbatim>\<open>time.Now()\<close> returns in this
  call and \<open>setRes\<close> is what the sink's \<^verbatim>\<open>Set\<close> returns if the call reaches it.  The
  result is the returned error (\<open>None\<close> is nil) and the client after the call.
\<close>

definition masterSave ::
  "time \<Rightarrow> error option \<Rightarrow> string \<Rightarrow> uint \<Rightarrow> Canal \<Rightarrow> error option \<times> Canal" where
  "masterSave now setRes fileName pos c =
     (let c1 = c\<lparr>masterStatus := (masterStatus c)\<lparr>File := fileName, Position := pos\<rparr>\<rparr>
      in if Sub now (masterLastSaveTime c1) < Second then (None, c1)
         else case cfgBackend c1 of
           None \<Rightarrow>
             (None, if logIsDebug c1 then c1\<lparr>effects := effects c1 @ [LogDebug]\<rparr> else c1)
         | Some sink \<Rightarrow>
             (let c2 = c1\<lparr>effects := effects c1 @ [SinkSet (masterStatus c1) setRes]\<rparr>
              in case setRes of
                   Some err \<Rightarrow>
                     (Some (WithStack err),
                      if logIsInfo c2 then c2\<lparr>effects := effects c2 @ [LogInfo]\<rparr> else c2)
                 | None \<Rightarrow> (None, c2\<lparr>masterLastSaveTime := now\<rparr>)))"

text \<open>\<^verbatim>\<open>Canal.SyncedPosition()\<close>.\<close>

definition SyncedPosition :: "Canal \<Rightarrow> MasterStatus" where
  "SyncedPosition c = masterStatus c"

text \<open>
  The event loop calls \<open>masterSave\<close> once per event.  \<open>saveAll\<close> runs a list of such
  calls in order, each with its own clock reading, sink answer, file name and offset;
  a returned error does not stop the later calls.
\<close>

fun saveAll :: "(time \<times> error option \<times> string \<times> uint) list \<Rightarrow> Canal \<Rightarrow> Canal" where
  "saveAll [] c = c"
| "saveAll ((now, setRes, fileName, pos) # rest) c =
     saveAll rest (snd (masterSave now setRes fileName pos c))"

text \<open>The calls of the sink's \<^verbatim>\<open>Set\<close> in a record of effects, and those that returned nil.\<close>

fun isSinkSet :: "effect \<Rightarrow> bool" where
  "isSinkSet (SinkSet ms r) = True"
| "isSinkSet e = False"

fun isSinkSetOk :: "effect \<Rightarrow> bool" where
  "isSinkSetOk (SinkSet ms r) = (r = None)"
| "isSinkSetOk e = False"

definition sinkWrites :: "Canal \<Rightarrow> nat" where
  "sinkWrites c = length (filter isSinkSet (effects c))"

definition sinkWritesOk :: "Canal \<Rightarrow> nat" where
  "sinkWritesOk c = length (filter isSinkSetOk (effects c))"

text \<open>The clock readings of a list of calls lie between \<open>lo\<close> and \<open>hi\<close>.\<close>

fun clockWithin :: "time \<Rightarrow> time \<Rightarrow> (time \<times> error option \<times> string \<times> uint) list \<Rightarrow> bool" where
  "clockWithin lo hi [] = True"
| "clockWithin lo hi ((now, x) # rest) = (lo \<le> now \<and> now \<le> hi \<and> clockWithin lo hi rest)"

text \<open>Every sink answer of a list of calls is nil.\<close>

fun sinkNeverFails :: "(time \<times> error option \<times> string \<times> uint) list \<Rightarrow> bool" where
  "sinkNeverFails [] = True"
| "sinkNeverFails ((now, setRes, x) # rest) = (setRes = None \<and> sinkNeverFails rest)"

section \<open>Shutdown\<close>

text \<open>\<^verbatim>\<open>Canal.isClosed()\<close>: the atomic flag reads 1.\<close>

definition isClosed :: "Canal \<Rightarrow> bool" where
  "isClosed c = (closed c = 1)"

text \<open>
  \<^verbatim>\<open>Canal.Close()\<close>.  The method holds the mutex \<^verbatim>\<open>mclose\<close> from its first statement to
  its return, so two calls never overlap: a second caller runs the whole body after the
  first has returned.  \<open>poolCloseRes\<close> is what \<^verbatim>\<open>dbcp.Close()\<close> returns in this call.
\<close>

definition Close :: "error option \<Rightarrow> Canal \<Rightarrow> error option \<times> Canal" where
  "Close poolCloseRes c =
     (if isClosed c then (None, c)
      else
        (let c1 = c\<lparr>closed := 1\<rparr>;
             c2 = (case syncer c1 of
                     None \<Rightarrow> c1
                   | Some s \<Rightarrow> c1\<lparr>syncer := None, effects := effects c1 @ [SyncerClose]\<rparr>)
         in case dbcp c2 of
              None \<Rightarrow> (Some (Panic ''nil pointer dereference''), c2)
            | Some pool \<Rightarrow>
                (let c3 = c2\<lparr>effects := effects c2 @ [PoolClose]\<rparr>
                 in case poolCloseRes of
                      Some err \<Rightarrow> (Some (WithStack err), c3)
                    | None \<Rightarrow> (None, c3\<lparr>effects := effects c3 @ [WgWait]\<rparr>))))"

section \<open>Collaborators\<close>

text \<open>
  The functions below are called by the modelled code and defined outside it: in a
  third-party library, in Go's standard library, or in a file of the repository that is
  not among the sources.  Each is a parameter of the model.  The database answers are
  parameters too: what a query returns is decided by the server.
  \<^item> \<open>ParseDSN\<close>: \<^verbatim>\<open>mysql.ParseDSN\<close>;
  \<^item> \<open>SplitHostPort\<close>: \<^verbatim>\<open>net.SplitHostPort\<close>;
  \<^item> \<open>NewConnPool\<close>: \<^verbatim>\<open>dml.NewConnPool(dml.WithDSN(...), dml.WithVerifyConnection())\<close>
    for a DSN configuration, \<open>None\<close> when the pool opens;
  \<^item> \<open>LoadMasterStatus\<close>: the load of a \<^verbatim>\<open>ddl.MasterStatus\<close>;
  \<^item> \<open>LoadVariables\<close>: the load of \<^verbatim>\<open>ddl.NewVariables(name)\<close>, giving its \<^verbatim>\<open>Data\<close> map;
  \<^item> \<open>ToUint\<close>, \<open>ToInt\<close>: \<^verbatim>\<open>conv.ToUint\<close>, \<^verbatim>\<open>conv.ToInt\<close> on a string;
  \<^item> \<open>IsValidIdentifier\<close>: \<^verbatim>\<open>dml.IsValidIdentifier\<close>;
  \<^item> \<open>TableCreate\<close>: \<^verbatim>\<open>Table.Create\<close>; \<open>loadCreateSyntax\<close>: \<^verbatim>\<open>Table.loadCreateSyntax\<close>;
    \<open>TableUpdate\<close>: \<^verbatim>\<open>Table.update\<close>; the boolean says whether the database handle is
    non-nil;
  \<^item> \<open>LoadColumns\<close>: \<^verbatim>\<open>ddl.LoadColumns\<close> for a list of table names.
\<close>

record Env =
  ParseDSN :: "string \<Rightarrow> error + Config"
  SplitHostPort :: "string \<Rightarrow> error + string \<times> string"
  NewConnPool :: "Config \<Rightarrow> error option"
  LoadMasterStatus :: "error + MasterStatus"
  LoadVariables :: "string \<Rightarrow> error + (string \<rightharpoonup> string)"
  ToUint :: "string \<Rightarrow> uint"
  ToInt :: "string \<Rightarrow> goint"
  IsValidIdentifier :: "string \<Rightarrow> error option"
  TableCreate :: "bool \<Rightarrow> Table \<Rightarrow> error option"
  loadCreateSyntax :: "bool \<Rightarrow> Table \<Rightarrow> error + Table"
  TableUpdate :: "Table \<Rightarrow> Table"
  LoadColumns :: "string list \<Rightarrow> error + (string \<rightharpoonup> Column list)"

section \<open>Table cache\<close>

text \<open>\<^verbatim>\<open>strings.HasPrefix\<close> and \<^verbatim>\<open>strings.Contains\<close>.\<close>

definition HasPrefix :: "string \<Rightarrow> string \<Rightarrow> bool" where
  "HasPrefix s pre = (take (length pre) s = pre)"

fun Contains :: "string \<Rightarrow> string \<Rightarrow> bool" where
  "Contains [] sub = (sub = [])"
| "Contains (x # xs) sub = (HasPrefix (x # xs) sub \<or> Contains xs sub)"

definition PrefixView :: string where
  "PrefixView = ''view_''"

text \<open>
  Modelled from the spec: \<^verbatim>\<open>ddl.NewTable(name)\<close> is not among the sources.  A cache entry
  has a table name, a schema name, an ordered column list, a view flag and an optional
  CREATE statement; a new table has its name and nothing else.
\<close>

definition NewTable :: "string \<Rightarrow> Table" where
  "NewTable n = \<lparr>Name = n, Schema = [], Columns = [], CreateSyntax = [], IsView = False\<rparr>"

text \<open>\<^verbatim>\<open>isCreateStmt(idName, stmt)\<close>.\<close>

definition isCreateStmt :: "string \<Rightarrow> string \<Rightarrow> bool" where
  "isCreateStmt idName stmt = (stmt \<noteq> [] \<and> HasPrefix stmt ''CREATE '' \<and> Contains stmt idName)"

text \<open>
  \<^verbatim>\<open>errTableNotFound(name)\<close>, of kind \<open>NotFound\<close>, and \<^verbatim>\<open>Tables.Table(name)\<close>.  The
  message puts the name between double quotes, as \<^verbatim>\<open>%q\<close> does for a name without
  characters to escape.
\<close>

definition errTableNotFound :: "string \<Rightarrow> error" where
  "errTableNotFound n =
     Error NotFound
       (''[ddl] Table '' @ [CHR 0x22] @ n @ [CHR 0x22] @ '' not found or not yet added.'')"

definition Tables_Table :: "Tables \<Rightarrow> string \<Rightarrow> error + Table" where
  "Tables_Table T n = (case tm T n of Some t \<Rightarrow> Inr t | None \<Rightarrow> Inl (errTableNotFound n))"

text \<open>\<^verbatim>\<open>Tables.DeleteFromCache(tableNames...)\<close> and \<^verbatim>\<open>Tables.DeleteAllFromCache()\<close>.\<close>

definition DeleteFromCache :: "string list \<Rightarrow> Tables \<Rightarrow> Tables" where
  "DeleteFromCache tableNames T = T\<lparr>tm := fold (\<lambda>tn m. m(tn := None)) tableNames (tm T)\<rparr>"

definition DeleteAllFromCache :: "Tables \<Rightarrow> Tables" where
  "DeleteAllFromCache T = T\<lparr>tm := Map.empty\<rparr>"

text \<open>
  A \<^verbatim>\<open>TableOption\<close>: its sort order and its function.  The function changes the
  \<^verbatim>\<open>Tables\<close> in place, so what it did before an error stays: the model returns the
  tables together with the error.
\<close>

type_synonym TableOption = "uint8 \<times> (Tables \<Rightarrow> error option \<times> Tables)"

text \<open>
  The loop of \<^verbatim>\<open>WithCreateTable\<close> over the pairs of table name and CREATE statement.
  \<open>tvNames\<close> collects the names; the new table is put into the map before anything
  is loaded for it.
\<close>

fun createTables ::
  "Env \<Rightarrow> bool \<Rightarrow> string list \<Rightarrow> string list \<Rightarrow> Tables \<Rightarrow> error option \<times> string list \<times> Tables" where
  "createTables env hasDB (tvName # tvCreate # rest) tvNames T =
     (case IsValidIdentifier env tvName of
        Some err \<Rightarrow> (Some (WithStack err), tvNames, T)
      | None \<Rightarrow>
          (let tvNames1 = tvNames @ [tvName];
               t = NewTable tvName;
               t1 = (if isCreateStmt tvName tvCreate
                     then t\<lparr>IsView := (Contains tvCreate '' VIEW '' \<or> HasPrefix tvName PrefixView),
                            CreateSyntax := tvCreate\<rparr>
                     else t);
               T1 = T\<lparr>tm := (tm T)(tvName \<mapsto> t1)\<rparr>;
               created = (if isCreateStmt tvName tvCreate then TableCreate env hasDB t1 else None)
           in case created of
                Some err \<Rightarrow> (Some (WithStack err), tvNames1, T1)
              | None \<Rightarrow>
                  (case loadCreateSyntax env hasDB t1 of
                     Inl err \<Rightarrow> (Some (WithStack err), tvNames1, T1)
                   | Inr t2 \<Rightarrow>
                       createTables env hasDB rest tvNames1 (T1\<lparr>tm := (tm T1)(tvName \<mapsto> t2)\<rparr>))))"
| "createTables env hasDB rest tvNames T = (None, tvNames, T)"

text \<open>
  The second loop of \<^verbatim>\<open>WithCreateTable\<close>: every named table gets the schema name and its
  columns (\<^verbatim>\<open>tc[n]\<close> is nil, the empty list, for a name the load did not return).  Every
  name of \<open>tvNames\<close> is in the map when the loop runs.
\<close>

definition setColumns :: "Env \<Rightarrow> (string \<rightharpoonup> Column list) \<Rightarrow> string \<Rightarrow> Tables \<Rightarrow> Tables" where
  "setColumns env tc n T =
     (case tm T n of
        None \<Rightarrow> T
      | Some t \<Rightarrow>
          T\<lparr>tm := (tm T)(n \<mapsto> TableUpdate env
                 (t\<lparr>Schema := TablesSchema T,
                    Columns := (case tc n of None \<Rightarrow> [] | Some cols \<Rightarrow> cols)\<rparr>))\<rparr>)"

text \<open>\<^verbatim>\<open>WithCreateTable(ctx, db, identifierCreateSyntax...)\<close>.\<close>

definition WithCreateTable :: "Env \<Rightarrow> bool \<Rightarrow> string list \<Rightarrow> TableOption" where
  "WithCreateTable env hasDB identifierCreateSyntax =
     (5, \<lambda>T.
        if length identifierCreateSyntax mod 2 = 1
        then (Some (Error NotValid ''[ddl] WithCreateTable expects a balanced slice''), T)
        else
          (case createTables env hasDB identifierCreateSyntax [] T of
             (Some err, tvNames, T1) \<Rightarrow> (Some err, T1)
           | (None, tvNames, T1) \<Rightarrow>
               if hasDB then
                 (case LoadColumns env tvNames of
                    Inl err \<Rightarrow> (Some (WithStack err), T1)
                  | Inr tc \<Rightarrow> (None, fold (setColumns env tc) tvNames T1))
               else (None, T1)))"

text \<open>
  \<^verbatim>\<open>Tables.Options(opts...)\<close>: the options run in the order of their sort order (a stable
  sort) until one fails.  After the last option the source hands its database handle to
  every table; the handle of a table is not a field of the model.
\<close>

fun applyTableOptions :: "TableOption list \<Rightarrow> Tables \<Rightarrow> error option \<times> Tables" where
  "applyTableOptions [] T = (None, T)"
| "applyTableOptions (to # rest) T =
     (case snd to T of
        (Some err, T1) \<Rightarrow> (Some (WithStack err), T1)
      | (None, T1) \<Rightarrow> applyTableOptions rest T1)"

definition Options :: "TableOption list \<Rightarrow> Tables \<Rightarrow> error option \<times> Tables" where
  "Options opts T = applyTableOptions (sort_key fst opts) T"

text \<open>
  Modelled from the spec: \<^verbatim>\<open>singleflight.Group.Do(key, fn)\<close> is not among the sources.
  The in-flight call for a key is de-duplicated and its result is handed to every
  waiting caller; a caller that finds no call in flight for the key runs \<open>fn\<close> itself
  and gets its result.  The model has one caller at a time, so \<open>Do\<close> runs \<open>fn\<close>.
\<close>

definition Do :: "string \<Rightarrow> (Canal \<Rightarrow> (error + Table) \<times> Canal) \<Rightarrow> Canal \<Rightarrow> (error + Table) \<times> Canal" where
  "Do k fn c = fn c"

text \<open>
  \<^verbatim>\<open>Canal.FindTable(ctx, tableName)\<close>.  The result is the returned table or error and the
  client after the call.  The function handed to \<open>Do\<close> reads \<^verbatim>\<open>c.dbcp.DB\<close> first, which
  panics when no pool is set; the handle it passes on is a non-nil interface value, so
  \<^verbatim>\<open>WithCreateTable\<close> runs with a database.
\<close>

definition FindTable :: "Env \<Rightarrow> string \<Rightarrow> Canal \<Rightarrow> (error + Table) \<times> Canal" where
  "FindTable env tableName c =
     (case Tables_Table (tables c) tableName of
        Inr t \<Rightarrow> (Inr t, c)
      | Inl err \<Rightarrow>
          if \<not> errIs err NotFound then (Inl (WithStack err), c)
          else
            Do tableName
              (\<lambda>c. let c1 = c\<lparr>effects := effects c @ [TableLoad tableName]\<rparr>
                    in case dbcp c1 of
                         None \<Rightarrow> (Inl (Panic ''nil pointer dereference''), c1)
                       | Some pool \<Rightarrow>
                           (case Options [WithCreateTable env True [tableName, []]] (tables c1) of
                              (Some err, T1) \<Rightarrow>
                                (Inl (WithStack (WithStack err)), c1\<lparr>tables := T1\<rparr>)
                            | (None, T1) \<Rightarrow>
                                (case Tables_Table T1 tableName of
                                   Inl err \<Rightarrow>
                                     (Inl (WithStack (WithStack err)), c1\<lparr>tables := T1\<rparr>)
                                 | Inr t \<Rightarrow> (Inr t, c1\<lparr>tables := T1\<rparr>))))
              c)"

text \<open>\<^verbatim>\<open>Canal.ClearTableCache(db, table)\<close>: the body holds a comment and no statement.\<close>

definition ClearTableCache :: "string \<Rightarrow> string \<Rightarrow> Canal \<Rightarrow> Canal" where
  "ClearTableCache db table c = c"

section \<open>Construction\<close>

definition MySQLFlavor :: string where
  "MySQLFlavor = ''mysql''"

definition MariaDBFlavor :: string where
  "MariaDBFlavor = ''mariadb''"

definition customMySQLParams :: "string list" where
  "customMySQLParams = [''BinlogStartFile'', ''BinlogStartPosition'', ''BinlogSlaveId'', ''flavor'']"

text \<open>
  An \<^verbatim>\<open>Option\<close> of the client.  \<^verbatim>\<open>NewCanal\<close> returns no client when an option fails, so
  the model keeps the client only on success.
\<close>

type_synonym Option = "Canal \<Rightarrow> error + Canal"

text \<open>\<^verbatim>\<open>Canal.flavor()\<close>.  A read of the nil map \<^verbatim>\<open>canalParams\<close> finds no key.\<close>

definition flavor :: "Canal \<Rightarrow> string" where
  "flavor c =
     (let f0 = (case canalParams c ''flavor'' of
                  Some v \<Rightarrow> if v \<noteq> [] then v else []
                | None \<Rightarrow> []);
          f = (if f0 = [] then MySQLFlavor else f0)
      in if f = MariaDBFlavor then MariaDBFlavor else MySQLFlavor)"

text \<open>\<^verbatim>\<open>WithMySQL()\<close>, \<^verbatim>\<open>WithConfigurationSetter(s)\<close> and \<^verbatim>\<open>WithLogger(l)\<close>.\<close>

definition WithMySQL :: "Env \<Rightarrow> Option" where
  "WithMySQL env c =
     (case NewConnPool env (dsn c) of
        Some err \<Rightarrow> Inl (WithStack err)
      | None \<Rightarrow> Inr (c\<lparr>dbcp := Some (dsn c)\<rparr>))"

definition WithConfigurationSetter :: "nat \<Rightarrow> Option" where
  "WithConfigurationSetter s c = Inr (c\<lparr>cfgBackend := Some s\<rparr>)"

definition WithLogger :: "bool \<Rightarrow> bool \<Rightarrow> Option" where
  "WithLogger isDebug isInfo c = Inr (c\<lparr>logIsDebug := isDebug, logIsInfo := isInfo\<rparr>)"

text \<open>\<^verbatim>\<open>withUpdateBinlogStart\<close>.\<close>

definition withUpdateBinlogStart :: "Env \<Rightarrow> Option" where
  "withUpdateBinlogStart env c =
     (case dbcp c of
        None \<Rightarrow> Inl (Panic ''nil pointer dereference'')
      | Some pool \<Rightarrow>
          (case LoadMasterStatus env of
             Inl err \<Rightarrow> Inl (WithStack err)
           | Inr ms \<Rightarrow>
               (let c1 = c\<lparr>masterStatus := ms\<rparr>;
                    c2 = (case canalParams c1 ''BinlogStartFile'' of
                            Some v \<Rightarrow>
                              if v \<noteq> [] then c1\<lparr>masterStatus := (masterStatus c1)\<lparr>File := v\<rparr>\<rparr>
                              else c1
                          | None \<Rightarrow> c1);
                    c3 = (case canalParams c2 ''BinlogStartPosition'' of
                            Some v \<Rightarrow>
                              if v \<noteq> [] then
                                (let hasPos = ToUint env v
                                 in if 4 \<le> hasPos
                                    then c2\<lparr>masterStatus := (masterStatus c2)\<lparr>Position := hasPos\<rparr>\<rparr>
                                    else c2)
                              else c2
                          | None \<Rightarrow> c2)
                in Inr c3)))"

text \<open>
  \<^verbatim>\<open>withPrepareSyncer\<close>.  \<^verbatim>\<open>uint32(blSlaveID)\<close> and \<^verbatim>\<open>uint16(conv.ToInt(port))\<close> keep the
  low bits of the integer.
\<close>

definition withPrepareSyncer :: "Env \<Rightarrow> Option" where
  "withPrepareSyncer env c =
     (case SplitHostPort env (Addr (dsn c)) of
        Inl err \<Rightarrow> Inl (Wrapf err ''[binlogsync] withPrepareSyncer SplitHostPort'')
      | Inr (host, port) \<Rightarrow>
          (let blSlaveID = (case canalParams c ''BinlogSlaveId'' of
                              Some v \<Rightarrow> if v \<noteq> [] then ToInt env v else 100
                            | None \<Rightarrow> 100);
               cfg = \<lparr>ServerID = ucast blSlaveID,
                      Flavor = flavor c,
                      Host = host,
                      Port = ucast (ToInt env port),
                      SyncUser = User (dsn c),
                      SyncPassword = Passwd (dsn c)\<rparr>
           in Inr (c\<lparr>syncer := Some cfg\<rparr>)))"

text \<open>ASCII case folding of a character, and a string comparison under it.\<close>

definition foldChar :: "char \<Rightarrow> char" where
  "foldChar ch =
     (let n = (of_char ch :: nat)
      in if 65 \<le> n \<and> n \<le> 90 then char_of (n + 32) else ch)"

text \<open>
  Modelled from the spec: \<^verbatim>\<open>ddl.Variables.EqualFold(key, expected)\<close> is not among the
  sources.  It tells whether the server variable \<open>key\<close> has the expected value (ROW for
  the binlog format, the wanted image for the row image), letter case ignored; a
  variable the server did not return reads as the empty string.  The folding is that of
  the ASCII letters.
\<close>

definition EqualFold :: "(string \<rightharpoonup> string) \<Rightarrow> string \<Rightarrow> string \<Rightarrow> bool" where
  "EqualFold vdata k expected =
     (map foldChar (case vdata k of None \<Rightarrow> [] | Some v \<Rightarrow> v) = map foldChar expected)"

text \<open>\<^verbatim>\<open>withCheckBinlogRowFormat\<close>.\<close>

definition withCheckBinlogRowFormat :: "Env \<Rightarrow> Option" where
  "withCheckBinlogRowFormat env c =
     (case dbcp c of
        None \<Rightarrow> Inl (Panic ''nil pointer dereference'')
      | Some pool \<Rightarrow>
          (case LoadVariables env ''binlog_format'' of
             Inl err \<Rightarrow> Inl (WithStack err)
           | Inr vdata \<Rightarrow>
               if \<not> EqualFold vdata ''binlog_format'' ''ROW''
               then Inl (Error NotSupported
                      ''[binlogsync] binlog variable must have the configured ROW format'')
               else Inr c))"

text \<open>
  The loop of \<^verbatim>\<open>NewCanal\<close> that moves the custom parameters with a non-empty text out of
  the DSN parameters into the client's own map.
\<close>

fun stripParams ::
  "string list \<Rightarrow> (string \<rightharpoonup> string) \<Rightarrow> (string \<rightharpoonup> string) \<Rightarrow>
   (string \<rightharpoonup> string) \<times> (string \<rightharpoonup> string)" where
  "stripParams [] ps cps = (ps, cps)"
| "stripParams (p # rest) ps cps =
     (case ps p of
        Some v \<Rightarrow>
          if v \<noteq> [] then stripParams rest (ps(p := None)) (cps(p \<mapsto> v))
          else stripParams rest ps cps
      | None \<Rightarrow> stripParams rest ps cps)"

fun applyOptions :: "Option list \<Rightarrow> Canal \<Rightarrow> error + Canal" where
  "applyOptions [] c = Inr c"
| "applyOptions (opt # rest) c =
     (case opt c of
        Inl err \<Rightarrow> Inl (WithStack err)
      | Inr c1 \<Rightarrow> applyOptions rest c1)"

text \<open>
  \<^verbatim>\<open>NewCanal(dsn, db, opts...)\<close>.  The compiled regular expression and the single-flight
  group of the new client are not fields of the model; the logger is
  \<^verbatim>\<open>log.BlackHole\<close>, whose level tests are false.
\<close>

definition NewCanal :: "Env \<Rightarrow> string \<Rightarrow> Option \<Rightarrow> Option list \<Rightarrow> error + Canal" where
  "NewCanal env dsnText db opts =
     (case ParseDSN env dsnText of
        Inl err \<Rightarrow> Inl (WithStack err)
      | Inr pDSN \<Rightarrow>
          (let (ps, cps) =
                 (case Params pDSN of
                    None \<Rightarrow> (None, Map.empty)
                  | Some m \<Rightarrow>
                      (case stripParams customMySQLParams m Map.empty of
                         (m1, cps1) \<Rightarrow> (Some m1, cps1)));
               c = \<lparr>dsn = pDSN\<lparr>Params := ps\<rparr>,
                    canalParams = cps,
                    cfgBackend = None,
                    masterStatus = \<lparr>File = [], Position = 0\<rparr>,
                    masterLastSaveTime = 0,
                    syncer = None,
                    dbcp = None,
                    tables = \<lparr>TablesSchema = DBName pDSN, tm = Map.empty\<rparr>,
                    closed = 0,
                    logIsDebug = False,
                    logIsInfo = False,
                    effects = []\<rparr>;
               opts2 = [db] @ opts @
                 [withUpdateBinlogStart env, withPrepareSyncer env, withCheckBinlogRowFormat env]
           in applyOptions opts2 c))"

text \<open>\<^verbatim>\<open>Canal.CheckBinlogRowImage(ctx, image)\<close>; \<open>None\<close> is the nil error.\<close>

definition CheckBinlogRowImage :: "Env \<Rightarrow> string \<Rightarrow> Canal \<Rightarrow> error option" where
  "CheckBinlogRowImage env wantImage c =
     (if flavor c = MySQLFlavor then
        (case dbcp c of
           None \<Rightarrow> Some (Panic ''nil pointer dereference'')
         | Some pool \<Rightarrow>
             (case LoadVariables env ''binlog_row_image'' of
                Inl err \<Rightarrow> Some (WithStack err)
              | Inr vdata \<Rightarrow>
                  if EqualFold vdata ''binlog_row_image'' wantImage
                  then Some (Error NotSupported
                         ''[binlogsync] MySQL uses another binlog row image than we want'')
                  else None))
      else None)"

section \<open>A concrete server and client\<close>

text \<open>
  The DSN of the scenario and the configuration that \<^verbatim>\<open>mysql.ParseDSN\<close> returns for it:
  user, password, network and address, database name, and the query parameters the
  driver does not know, kept as texts in \<open>Params\<close>.
\<close>

definition scenarioDSN :: string where
  "scenarioDSN =
     ''user:pass@tcp(host:3306)/shop?BinlogStartFile=bin.000005&BinlogStartPosition=4&BinlogSlaveId=101''"

definition scenarioConfig :: Config where
  "scenarioConfig =
     \<lparr>User = ''user'', Passwd = ''pass'', Net = ''tcp'', Addr = ''host:3306'', DBName = ''shop'',
      Params = Some [''BinlogStartFile'' \<mapsto> ''bin.000005'',
                     ''BinlogStartPosition'' \<mapsto> ''4'',
                     ''BinlogSlaveId'' \<mapsto> ''101'']\<rparr>"

text \<open>The number a text of decimal digits stands for; 0 for any other text.\<close>

definition isDigit :: "char \<Rightarrow> bool" where
  "isDigit ch = (let n = (of_char ch :: nat) in 48 \<le> n \<and> n \<le> 57)"

definition decimal :: "string \<Rightarrow> nat" where
  "decimal s =
     (if s \<noteq> [] \<and> list_all isDigit s
      then foldl (\<lambda>n ch. 10 * n + (of_char ch - 48)) 0 s
      else 0)"

text \<open>
  A server that accepts the connection, reports the master status \<open>ms\<close>, the binlog
  format ROW and the row image FULL, and answers every metadata query: each table has
  the one column \<open>id\<close>.
\<close>

definition idColumn :: Column where
  "idColumn = \<lparr>Field = ''id'', ColumnType = ''int(10) unsigned'', Null = ''NO''\<rparr>"

definition scenarioEnv :: "MasterStatus \<Rightarrow> Env" where
  "scenarioEnv ms =
     \<lparr>ParseDSN = (\<lambda>s. if s = scenarioDSN then Inr scenarioConfig
                       else Inl (Error Unclassified ''invalid DSN'')),
      SplitHostPort = (\<lambda>a. if a = ''host:3306'' then Inr (''host'', ''3306'')
                            else Inl (Error Unclassified ''missing port in address'')),
      NewConnPool = (\<lambda>cfg. None),
      LoadMasterStatus = Inr ms,
      LoadVariables = (\<lambda>n. if n = ''binlog_format'' then Inr [n \<mapsto> ''ROW'']
                            else if n = ''binlog_row_image'' then Inr [n \<mapsto> ''FULL'']
                            else Inr Map.empty),
      ToUint = (\<lambda>s. of_nat (decimal s)),
      ToInt = (\<lambda>s. of_nat (decimal s)),
      IsValidIdentifier = (\<lambda>n. None),
      TableCreate = (\<lambda>hasDB t. None),
      loadCreateSyntax = (\<lambda>hasDB t. Inr t),
      TableUpdate = (\<lambda>t. t),
      LoadColumns = (\<lambda>ns. Inr (\<lambda>n. if n \<in> set ns then Some [idColumn] else None))\<rparr>"

definition serverStatus :: MasterStatus where
  "serverStatus = \<lparr>File = ''bin.000009'', Position = 1500\<rparr>"

text \<open>The same server with a metadata query that fails.\<close>

definition connectionLost :: error where
  "connectionLost = Error Unclassified ''invalid connection''"

definition brokenEnv :: Env where
  "brokenEnv = (scenarioEnv serverStatus)\<lparr>LoadColumns := (\<lambda>ns. Inl connectionLost)\<rparr>"

text \<open>The same server with the row image MINIMAL.\<close>

definition minimalEnv :: Env where
  "minimalEnv =
     (scenarioEnv serverStatus)\<lparr>LoadVariables := (\<lambda>n. Inr [n \<mapsto> ''MINIMAL''])\<rparr>"

text \<open>
  An open client as \<^verbatim>\<open>NewCanal\<close> builds it for the scenario, with a position sink and
  info logging configured.
\<close>

definition openCanal :: Canal where
  "openCanal =
     \<lparr>dsn = scenarioConfig\<lparr>Params := Some Map.empty\<rparr>,
      canalParams = [''BinlogStartFile'' \<mapsto> ''bin.000005'',
                     ''BinlogStartPosition'' \<mapsto> ''4'',
                     ''BinlogSlaveId'' \<mapsto> ''101''],
      cfgBackend = Some 0,
      masterStatus = \<lparr>File = ''bin.000005'', Position = 4\<rparr>,
      masterLastSaveTime = 0,
      syncer = Some \<lparr>ServerID = 101, Flavor = ''mysql'', Host = ''host'', Port = 3306,
                      SyncUser = ''user'', SyncPassword = ''pass''\<rparr>,
      dbcp = Some (scenarioConfig\<lparr>Params := Some Map.empty\<rparr>),
      tables = \<lparr>TablesSchema = ''shop'', tm = Map.empty\<rparr>,
      closed = 0,
      logIsDebug = False,
      logIsInfo = True,
      effects = []\<rparr>"

text \<open>
  A clock reading of the year 2026 in nanoseconds, and ten calls of \<open>masterSave\<close>
  within 100 milliseconds, 10 milliseconds apart, whose sink write fails every time.
\<close>

definition clock0 :: time where
  "clock0 = 63900000000000000000"

definition sinkDown :: error where
  "sinkDown = Error Unclassified ''sink unavailable''"

definition failingCalls :: "(time \<times> error option \<times> string \<times> uint) list" where
  "failingCalls =
     map (\<lambda>k. (clock0 + k * 10 * Millisecond, Some sinkDown, ''bin.000005'', 4))
       [0, 1, 2, 3, 4, 5, 6, 7, 8, 9]"

text \<open>
  The open client five seconds after its last persisted write, and ten calls of
  \<open>masterSave\<close> within 100 milliseconds whose sink write succeeds.
\<close>

definition savedCanal :: Canal where
  "savedCanal = openCanal\<lparr>masterLastSaveTime := clock0 - 5 * Second\<rparr>"

definition okCalls :: "(time \<times> error option \<times> string \<times> uint) list" where
  "okCalls =
     map (\<lambda>k. (clock0 + k * 10 * Millisecond, None, ''bin.000005'', 4))
       [0, 1, 2, 3, 4, 5, 6, 7, 8, 9]"

text \<open>A client whose DSN carried the start position 3.\<close>

definition lowStartCanal :: Canal where
  "lowStartCanal = openCanal\<lparr>canalParams := [''BinlogStartPosition'' \<mapsto> ''3'']\<rparr>"

text \<open>The cache entry the scenario's server gives for the table \<open>t\<close>.\<close>

definition shopTable :: Table where
  "shopTable =
     \<lparr>Name = ''t'', Schema = ''shop'', Columns = [idColumn], CreateSyntax = [], IsView = False\<rparr>"

text \<open>The same server with the binlog format MIXED.\<close>

definition mixedEnv :: Env where
  "mixedEnv =
     (scenarioEnv serverStatus)\<lparr>LoadVariables := (\<lambda>n. Inr [n \<mapsto> ''MIXED''])\<rparr>"

section \<open>Facts for evaluation\<close>

lemmas clock_defs = clock0_def Second_def Millisecond_def Sub_def maxDuration_def minDuration_def

lemmas table_defs = FindTable_def Do_def Tables_Table_def Options_def WithCreateTable_def
  errIs_def errTableNotFound_def NewTable_def isCreateStmt_def setColumns_def WithStack_def

lemmas construct_defs = NewCanal_def WithMySQL_def withUpdateBinlogStart_def
  withPrepareSyncer_def withCheckBinlogRowFormat_def customMySQLParams_def flavor_def
  MySQLFlavor_def MariaDBFlavor_def EqualFold_def foldChar_def WithStack_def

lemma decimal_4: "decimal ''4'' = 4"
  by (simp add: decimal_def isDigit_def)

lemma decimal_101: "decimal ''101'' = 101"
  by (simp add: decimal_def isDigit_def)

lemma decimal_3306: "decimal ''3306'' = 3306"
  by (simp add: decimal_def isDigit_def)

section \<open>Get after set on the position tracker\<close>

text \<open>
  Claim C5.  After \<open>masterSave f p\<close>, whatever the clock reads, whether or not a sink is
  configured and whatever the sink returns, \<open>SyncedPosition\<close> has the file name \<open>f\<close>
  and the offset \<open>p\<close>.
\<close>

theorem SyncedPosition_after_masterSave:
  "File (SyncedPosition (snd (masterSave now setRes f p c))) = f \<and>
   Position (SyncedPosition (snd (masterSave now setRes f p c))) = p"
  by (simp add: masterSave_def SyncedPosition_def Let_def split: option.split)

section \<open>Throttled persistence\<close>

text \<open>The saturation of \<open>Sub\<close> does not matter for the comparison with one second.\<close>

lemma Sub_less_Second: "Sub t u < Second \<longleftrightarrow> t - u < Second"
  by (simp add: Sub_def Let_def maxDuration_def minDuration_def Second_def)

text \<open>Less than a second after the last persisted write: coordinates only.\<close>

lemma masterSave_throttle_skip:
  "Sub now (masterLastSaveTime c) < Second \<Longrightarrow>
   masterSave now r f p c =
     (None, c\<lparr>masterStatus := (masterStatus c)\<lparr>File := f, Position := p\<rparr>\<rparr>)"
  by (simp add: masterSave_def Let_def)

text \<open>A second or more after it, with a sink: one call of the sink.\<close>

lemma masterSave_reaches_sink:
  "cfgBackend c = Some sink \<Longrightarrow> Second \<le> Sub now (masterLastSaveTime c) \<Longrightarrow>
   filter isSinkSet (effects (snd (masterSave now r f p c))) =
     filter isSinkSet (effects c) @ [SinkSet \<lparr>File = f, Position = p\<rparr> r]"
  by (cases r) (simp_all add: masterSave_def Let_def)

text \<open>
  One call either leaves the count of successful writes and the time of the last write
  as they are, or adds one write and sets the time to the clock reading of the call.
\<close>

lemma masterSave_ok_step:
  "sinkWritesOk (snd (masterSave now r f p c)) = sinkWritesOk c \<and>
     masterLastSaveTime (snd (masterSave now r f p c)) = masterLastSaveTime c
   \<or> sinkWritesOk (snd (masterSave now r f p c)) = sinkWritesOk c + 1 \<and>
     masterLastSaveTime (snd (masterSave now r f p c)) = now"
  by (simp add: masterSave_def Let_def sinkWritesOk_def split: option.split)

lemma masterSave_step:
  "r = None \<Longrightarrow>
   sinkWrites (snd (masterSave now r f p c)) = sinkWrites c \<and>
     masterLastSaveTime (snd (masterSave now r f p c)) = masterLastSaveTime c
   \<or> sinkWrites (snd (masterSave now r f p c)) = sinkWrites c + 1 \<and>
     masterLastSaveTime (snd (masterSave now r f p c)) = now"
  by (simp add: masterSave_def Let_def sinkWrites_def split: option.split)

lemma masterSave_quiet:
  "now - masterLastSaveTime c < Second \<Longrightarrow>
   sinkWritesOk (snd (masterSave now r f p c)) = sinkWritesOk c \<and>
   sinkWrites (snd (masterSave now r f p c)) = sinkWrites c \<and>
   masterLastSaveTime (snd (masterSave now r f p c)) = masterLastSaveTime c"
  by (simp add: masterSave_throttle_skip Sub_less_Second sinkWritesOk_def sinkWrites_def)

text \<open>
  Once the last write lies inside a window shorter than a second, no call of the window
  reaches the sink.
\<close>

lemma saveAll_quiet:
  "clockWithin lo hi calls \<Longrightarrow> hi - lo < Second \<Longrightarrow> lo \<le> masterLastSaveTime c \<Longrightarrow>
   sinkWritesOk (saveAll calls c) = sinkWritesOk c \<and>
   sinkWrites (saveAll calls c) = sinkWrites c"
proof (induction calls arbitrary: c)
  case Nil
  then show ?case by simp
next
  case (Cons x calls)
  obtain now r f p where x: "x = (now, r, f, p)" by (cases x) auto
  from Cons.prems x have w: "lo \<le> now" "now \<le> hi" "clockWithin lo hi calls"
    by simp_all
  from w Cons.prems have "now - masterLastSaveTime c < Second" by linarith
  from masterSave_quiet [OF this, of r f p] Cons.IH [OF w(3) Cons.prems(2)] Cons.prems(3)
  show ?case by (simp add: x)
qed

lemma saveAll_ok_at_most_one:
  "clockWithin lo hi calls \<Longrightarrow> hi - lo < Second \<Longrightarrow>
   sinkWritesOk (saveAll calls c) \<le> sinkWritesOk c + 1"
proof (induction calls arbitrary: c)
  case Nil
  then show ?case by simp
next
  case (Cons x calls)
  obtain now r f p where x: "x = (now, r, f, p)" by (cases x) auto
  from Cons.prems x have w: "lo \<le> now" "now \<le> hi" "clockWithin lo hi calls"
    by simp_all
  let ?c = "snd (masterSave now r f p c)"
  from masterSave_ok_step [of now r f p c] show ?case
  proof
    assume "sinkWritesOk ?c = sinkWritesOk c \<and> masterLastSaveTime ?c = masterLastSaveTime c"
    with Cons.IH [OF w(3) Cons.prems(2), of ?c] show ?thesis by (simp add: x)
  next
    assume a: "sinkWritesOk ?c = sinkWritesOk c + 1 \<and> masterLastSaveTime ?c = now"
    with w have "lo \<le> masterLastSaveTime ?c" by simp
    from saveAll_quiet [OF w(3) Cons.prems(2) this] a show ?thesis by (simp add: x)
  qed
qed

lemma saveAll_at_most_one:
  "clockWithin lo hi calls \<Longrightarrow> hi - lo < Second \<Longrightarrow> sinkNeverFails calls \<Longrightarrow>
   sinkWrites (saveAll calls c) \<le> sinkWrites c + 1"
proof (induction calls arbitrary: c)
  case Nil
  then show ?case by simp
next
  case (Cons x calls)
  obtain now r f p where x: "x = (now, r, f, p)" by (cases x) auto
  from Cons.prems x have w: "lo \<le> now" "now \<le> hi" "clockWithin lo hi calls"
    and nf: "r = None" "sinkNeverFails calls"
    by simp_all
  let ?c = "snd (masterSave now r f p c)"
  from masterSave_step [OF nf(1), of now f p c] show ?case
  proof
    assume "sinkWrites ?c = sinkWrites c \<and> masterLastSaveTime ?c = masterLastSaveTime c"
    with Cons.IH [OF w(3) Cons.prems(2) nf(2), of ?c] show ?thesis by (simp add: x)
  next
    assume a: "sinkWrites ?c = sinkWrites c + 1 \<and> masterLastSaveTime ?c = now"
    with w have "lo \<le> masterLastSaveTime ?c" by simp
    from saveAll_quiet [OF w(3) Cons.prems(2) this] a show ?thesis by (simp add: x)
  qed
qed

text \<open>
  The time of the last write after a call, with a sink configured: the clock reading of
  the call when the call reached the sink and \<open>Set\<close> returned nil, and the time it
  was before the call otherwise.
\<close>

lemma masterSave_last_time:
  "cfgBackend c = Some sink \<Longrightarrow>
   masterLastSaveTime (snd (masterSave now r f p c)) =
     (if Second \<le> Sub now (masterLastSaveTime c) \<and> r = None then now
      else masterLastSaveTime c)"
  by (simp add: masterSave_def Let_def split: option.split)

text \<open>
  Claim C4, as the code has it.  With a sink configured:
  a call less than one second after the last successful sink write updates the
  coordinates, returns nil and calls nothing;
  a call one second or more after it calls the sink's \<open>Set\<close> exactly once, with the
  new coordinates, whatever \<open>Set\<close> returns;
  the time of the last write becomes the clock reading of the call exactly when the call
  reached the sink and \<open>Set\<close> returned nil, and stays as it was otherwise, so a
  failed \<open>Set\<close> does not advance it;
  among any number of calls whose clock readings lie within 100 milliseconds, at most
  one sink write succeeds;
  and when no sink write of these calls fails, the sink is called at most once.
\<close>

theorem masterSave_throttled:
  assumes "cfgBackend c = Some sink"
  shows "(Sub now1 (masterLastSaveTime c) < Second \<longrightarrow>
            masterSave now1 r1 f p c =
              (None, c\<lparr>masterStatus := (masterStatus c)\<lparr>File := f, Position := p\<rparr>\<rparr>)) \<and>
         (Second \<le> Sub now2 (masterLastSaveTime c) \<longrightarrow>
            filter isSinkSet (effects (snd (masterSave now2 r2 f p c))) =
              filter isSinkSet (effects c) @ [SinkSet \<lparr>File = f, Position = p\<rparr> r2]) \<and>
         masterLastSaveTime (snd (masterSave now3 r3 f p c)) =
           (if Second \<le> Sub now3 (masterLastSaveTime c) \<and> r3 = None then now3
            else masterLastSaveTime c) \<and>
         (clockWithin lo (lo + 100 * Millisecond) calls \<longrightarrow>
            sinkWritesOk (saveAll calls c) \<le> sinkWritesOk c + 1) \<and>
         (clockWithin lo (lo + 100 * Millisecond) calls \<and> sinkNeverFails calls \<longrightarrow>
            sinkWrites (saveAll calls c) \<le> sinkWrites c + 1)"
proof -
  have win: "lo + 100 * Millisecond - lo < Second"
    by (simp add: Millisecond_def Second_def)
  show ?thesis
    using assms masterSave_throttle_skip masterSave_reaches_sink
      masterSave_last_time [OF assms, of now3 r3 f p]
      saveAll_ok_at_most_one [OF _ win] saveAll_at_most_one [OF _ win]
    by blast
qed

text \<open>
  The theorem at the client \<open>savedCanal\<close>, whose last write is five seconds old: a
  call 300 milliseconds after that write is throttled and leaves the time of the last
  write, a call at \<open>clock0\<close> writes once and sets that time to \<open>clock0\<close> when the
  write succeeds and leaves it when the sink is down, and the ten calls of \<open>okCalls\<close>
  write once.
\<close>

theorem masterSave_throttled_witness:
  "cfgBackend savedCanal = Some 0 \<and>
   Sub (clock0 - 5 * Second + 300 * Millisecond) (masterLastSaveTime savedCanal) < Second \<and>
   masterSave (clock0 - 5 * Second + 300 * Millisecond) None ''bin.000005'' 120 savedCanal =
     (None, savedCanal\<lparr>masterStatus := \<lparr>File = ''bin.000005'', Position = 120\<rparr>\<rparr>) \<and>
   Second \<le> Sub clock0 (masterLastSaveTime savedCanal) \<and>
   filter isSinkSet (effects (snd (masterSave clock0 None ''bin.000005'' 120 savedCanal))) =
     [SinkSet \<lparr>File = ''bin.000005'', Position = 120\<rparr> None] \<and>
   masterLastSaveTime (snd (masterSave clock0 None ''bin.000005'' 120 savedCanal)) = clock0 \<and>
   masterLastSaveTime (snd (masterSave clock0 (Some sinkDown) ''bin.000005'' 120 savedCanal)) =
     clock0 - 5 * Second \<and>
   masterLastSaveTime
     (snd (masterSave (clock0 - 5 * Second + 300 * Millisecond) None ''bin.000005'' 120
        savedCanal)) = clock0 - 5 * Second \<and>
   clockWithin clock0 (clock0 + 100 * Millisecond) okCalls \<and>
   sinkNeverFails okCalls \<and>
   sinkWritesOk (saveAll okCalls savedCanal) \<le> 1 \<and>
   sinkWrites (saveAll okCalls savedCanal) \<le> 1"
proof -
  have h: "cfgBackend savedCanal = Some 0"
    "Sub (clock0 - 5 * Second + 300 * Millisecond) (masterLastSaveTime savedCanal) < Second"
    "Second \<le> Sub clock0 (masterLastSaveTime savedCanal)"
    "clockWithin clock0 (clock0 + 100 * Millisecond) okCalls"
    "sinkNeverFails okCalls"
    by (simp_all add: savedCanal_def openCanal_def okCalls_def clock_defs Let_def)
  have z: "effects savedCanal = []"
    "masterStatus savedCanal = \<lparr>File = ''bin.000005'', Position = 4\<rparr>"
    "masterLastSaveTime savedCanal = clock0 - 5 * Second"
    by (simp_all add: savedCanal_def openCanal_def)
  note t = masterSave_throttled [OF h(1), of "clock0 - 5 * Second + 300 * Millisecond" None
      "''bin.000005''" 120 clock0 None _ _ clock0 okCalls]
  from t [of clock0 None] t [of clock0 "Some sinkDown"]
    t [of "clock0 - 5 * Second + 300 * Millisecond" None] h z
  show ?thesis by (simp add: sinkWritesOk_def sinkWrites_def)
qed

text \<open>
  Against claim C4 as stated: the open client has a sink, the ten calls of
  \<open>failingCalls\<close> lie within 100 milliseconds, and the sink is called ten times, once
  per call, because a failed write leaves the time of the last write as it was.
\<close>

theorem masterSave_ten_failed_writes:
  "cfgBackend openCanal = Some 0 \<and>
   length failingCalls = 10 \<and>
   clockWithin clock0 (clock0 + 100 * Millisecond) failingCalls \<and>
   sinkWrites openCanal = 0 \<and>
   sinkWrites (saveAll failingCalls openCanal) = 10"
  by (simp add: failingCalls_def openCanal_def masterSave_def sinkWrites_def clock_defs
        Let_def sinkDown_def)

section \<open>A failing position sink\<close>

text \<open>
  Claim C8, as the code has it.  When a call of \<open>masterSave\<close> reaches the sink and the
  sink's \<open>Set\<close> fails, the error is returned to the caller of \<open>masterSave\<close> (with a stack
  trace attached) and is logged when info logging is on; the coordinates in memory are
  the saved file name and offset, \<open>SyncedPosition\<close> returns them, and the time of the
  last write stays as it was.
\<close>

theorem masterSave_sink_failure:
  assumes "cfgBackend c = Some sink" and "Second \<le> Sub now (masterLastSaveTime c)"
  shows "masterSave now (Some err) f p c =
           (Some (WithStack err),
            c\<lparr>masterStatus := (masterStatus c)\<lparr>File := f, Position := p\<rparr>,
              effects := effects c @
                [SinkSet ((masterStatus c)\<lparr>File := f, Position := p\<rparr>) (Some err)] @
                (if logIsInfo c then [LogInfo] else [])\<rparr>) \<and>
         File (SyncedPosition (snd (masterSave now (Some err) f p c))) = f \<and>
         Position (SyncedPosition (snd (masterSave now (Some err) f p c))) = p \<and>
         masterLastSaveTime (snd (masterSave now (Some err) f p c)) = masterLastSaveTime c"
  using assms by (simp add: masterSave_def SyncedPosition_def Let_def)

text \<open>The theorem at the open client, at \<open>clock0\<close>, with a sink that is down.\<close>

theorem masterSave_sink_failure_witness:
  "cfgBackend openCanal = Some 0 \<and>
   Second \<le> Sub clock0 (masterLastSaveTime openCanal) \<and>
   masterSave clock0 (Some sinkDown) ''bin.000006'' 120 openCanal =
     (Some sinkDown,
      openCanal\<lparr>masterStatus := \<lparr>File = ''bin.000006'', Position = 120\<rparr>,
                effects := [SinkSet \<lparr>File = ''bin.000006'', Position = 120\<rparr> (Some sinkDown),
                            LogInfo]\<rparr>) \<and>
   SyncedPosition (snd (masterSave clock0 (Some sinkDown) ''bin.000006'' 120 openCanal)) =
     \<lparr>File = ''bin.000006'', Position = 120\<rparr>"
proof -
  have h: "cfgBackend openCanal = Some 0" "Second \<le> Sub clock0 (masterLastSaveTime openCanal)"
    by (simp_all add: openCanal_def clock_defs Let_def)
  from masterSave_sink_failure [OF h, of sinkDown "''bin.000006''" 120] h
  show ?thesis by (simp add: openCanal_def WithStack_def SyncedPosition_def)
qed

text \<open>
  Against claim C8 as stated: at the open client the failed sink write is returned to
  the caller of \<open>masterSave\<close>.
\<close>

theorem masterSave_sink_error_returned:
  "fst (masterSave clock0 (Some sinkDown) ''bin.000005'' 120 openCanal) = Some sinkDown"
  by (simp add: openCanal_def masterSave_def clock_defs Let_def WithStack_def)

section \<open>Shutdown with a failing pool\<close>

text \<open>
  What holds of \<open>Close\<close> for every client and every answer of the pool: a call after
  the first returns nil and changes nothing, so neither the syncer nor the pool is
  closed a second time.
\<close>

lemma Close_idempotent: "Close r2 (snd (Close r1 c)) = (None, snd (Close r1 c))"
  by (simp add: Close_def isClosed_def Let_def split: option.split)

text \<open>
  The first call on an open client whose pool closes without error: the flag is set,
  the syncer and the pool are closed and the worker is joined, in this order.
\<close>

lemma Close_first:
  "\<not> isClosed c \<Longrightarrow> syncer c = Some s \<Longrightarrow> dbcp c = Some pool \<Longrightarrow>
   Close None c =
     (None, c\<lparr>closed := 1, syncer := None,
               effects := effects c @ [SyncerClose, PoolClose, WgWait]\<rparr>)"
  by (simp add: Close_def Let_def)

text \<open>
  Claim C6, at the open client when closing the pool fails.  The first call of \<open>Close\<close>
  returns the error of the pool; every later call returns nil and changes nothing; and
  after both calls the syncer and the pool have been closed once each, but
  \<^verbatim>\<open>wg.Wait()\<close> has not been called: no call of \<open>Close\<close> joins the background worker.
\<close>

theorem Close_twice_never_joins:
  "fst (Close (Some connectionLost) openCanal) = Some connectionLost \<and>
   Close r (snd (Close (Some connectionLost) openCanal)) =
     (None, snd (Close (Some connectionLost) openCanal)) \<and>
   effects (snd (Close r (snd (Close (Some connectionLost) openCanal)))) =
     [SyncerClose, PoolClose]"
  by (simp add: Close_def isClosed_def openCanal_def Let_def WithStack_def)

text \<open>
  Claim C7, at the open client when closing the pool fails.  \<open>Close\<close> returns the error
  of the pool, with the flag set and the syncer and the pool closed; it returns before
  \<^verbatim>\<open>wg.Wait()\<close>, so the wait group is not awaited.
\<close>

theorem Close_pool_error:
  "Close (Some connectionLost) openCanal =
     (Some connectionLost,
      openCanal\<lparr>closed := 1, syncer := None, effects := [SyncerClose, PoolClose]\<rparr>)"
  by (simp add: Close_def isClosed_def openCanal_def Let_def WithStack_def)

section \<open>Cache invalidation and failed loads\<close>

text \<open>A cached table is returned as it is, with no load.\<close>

lemma FindTable_cached:
  "tm (tables c) n = Some t \<Longrightarrow> FindTable env n c = (Inr t, c)"
  by (simp add: FindTable_def Tables_Table_def)

text \<open>\<open>DeleteFromCache\<close> of the table cache does remove an entry.\<close>

lemma DeleteFromCache_removes: "tm (DeleteFromCache [n] T) n = None"
  by (simp add: DeleteFromCache_def)

text \<open>
  Claim C2, at the open client and the table \<open>t\<close>.  The first \<open>FindTable\<close> loads the
  table from the database and caches it.  \<open>ClearTableCache\<close> then leaves the client as it
  is, the cache entry included, and the next \<open>FindTable\<close> returns the cached entry
  again without a load, whatever the database would answer now.
\<close>

theorem ClearTableCache_keeps_entry:
  "fst (FindTable (scenarioEnv serverStatus) ''t'' openCanal) = Inr shopTable \<and>
   effects (snd (FindTable (scenarioEnv serverStatus) ''t'' openCanal)) = [TableLoad ''t''] \<and>
   ClearTableCache ''shop'' ''t'' (snd (FindTable (scenarioEnv serverStatus) ''t'' openCanal)) =
     snd (FindTable (scenarioEnv serverStatus) ''t'' openCanal) \<and>
   FindTable env ''t''
     (ClearTableCache ''shop'' ''t'' (snd (FindTable (scenarioEnv serverStatus) ''t'' openCanal))) =
     (Inr shopTable, snd (FindTable (scenarioEnv serverStatus) ''t'' openCanal))"
  by (simp add: table_defs ClearTableCache_def scenarioEnv_def openCanal_def Let_def
        shopTable_def)

text \<open>
  A load that fails after the name has been validated leaves the new, empty table in the
  cache: the entry is stored before the CREATE statement and the columns are loaded.
\<close>

lemma FindTable_failed_syntax:
  "tm (tables c) n = None \<Longrightarrow> dbcp c = Some pool \<Longrightarrow> IsValidIdentifier env n = None \<Longrightarrow>
   loadCreateSyntax env True (NewTable n) = Inl e \<Longrightarrow>
   fst (FindTable env n c) = Inl e \<and>
   tm (tables (snd (FindTable env n c))) n = Some (NewTable n)"
  by (simp add: table_defs Let_def)

lemma FindTable_failed_columns:
  "tm (tables c) n = None \<Longrightarrow> dbcp c = Some pool \<Longrightarrow> IsValidIdentifier env n = None \<Longrightarrow>
   loadCreateSyntax env True (NewTable n) = Inr t2 \<Longrightarrow> LoadColumns env [n] = Inl e \<Longrightarrow>
   fst (FindTable env n c) = Inl e \<and> tm (tables (snd (FindTable env n c))) n = Some t2"
  by (simp add: table_defs Let_def)

text \<open>
  Claim C3, at the open client and the table \<open>t\<close> when the column load fails.
  \<open>FindTable\<close> returns the error of the load, and the cache then holds an entry for
  \<open>t\<close>: the new table with its name and no columns.  The next \<open>FindTable\<close> returns
  that entry without an error and without a load, whatever the database would answer
  now.
\<close>

theorem FindTable_failed_load_stays_cached:
  "FindTable brokenEnv ''t'' openCanal =
     (Inl connectionLost,
      openCanal\<lparr>tables := \<lparr>TablesSchema = ''shop'', tm = [''t'' \<mapsto> NewTable ''t'']\<rparr>,
                effects := [TableLoad ''t'']\<rparr>) \<and>
   FindTable env ''t'' (snd (FindTable brokenEnv ''t'' openCanal)) =
     (Inr (NewTable ''t''), snd (FindTable brokenEnv ''t'' openCanal))"
  by (simp add: table_defs brokenEnv_def scenarioEnv_def openCanal_def Let_def)

section \<open>Binlog preconditions\<close>

text \<open>
  The format check of the constructor: with the format not ROW the option fails with a
  \<open>NotSupported\<close> error, and a client is constructed only when the format is ROW.
\<close>

lemma withCheckBinlogRowFormat_not_ROW:
  "dbcp c = Some pool \<Longrightarrow> LoadVariables env ''binlog_format'' = Inr vdata \<Longrightarrow>
   \<not> EqualFold vdata ''binlog_format'' ''ROW'' \<Longrightarrow>
   \<exists>e. withCheckBinlogRowFormat env c = Inl e \<and> errKind e = NotSupported"
  by (simp add: withCheckBinlogRowFormat_def)

lemma withCheckBinlogRowFormat_ok:
  "withCheckBinlogRowFormat env c = Inr c1 \<Longrightarrow>
   \<exists>vdata. LoadVariables env ''binlog_format'' = Inr vdata \<and>
     EqualFold vdata ''binlog_format'' ''ROW''"
  by (auto simp add: withCheckBinlogRowFormat_def split: option.splits sum.splits if_splits)

lemma applyOptions_append:
  "applyOptions (xs @ ys) c =
     (case applyOptions xs c of Inl e \<Rightarrow> Inl e | Inr c1 \<Rightarrow> applyOptions ys c1)"
  by (induction xs arbitrary: c) (auto split: sum.split)

lemma NewCanal_requires_ROW:
  assumes "NewCanal env d db opts = Inr c"
  shows "\<exists>vdata. LoadVariables env ''binlog_format'' = Inr vdata \<and>
     EqualFold vdata ''binlog_format'' ''ROW''"
proof -
  from assms obtain c0 where
    "applyOptions (([db] @ opts @ [withUpdateBinlogStart env, withPrepareSyncer env]) @
       [withCheckBinlogRowFormat env]) c0 = Inr c"
    by (auto simp add: NewCanal_def Let_def split: sum.splits prod.splits)
  then obtain c1 where "applyOptions [withCheckBinlogRowFormat env] c1 = Inr c"
    unfolding applyOptions_append [of _ "[withCheckBinlogRowFormat env]"]
    by (auto split: sum.splits)
  then have "withCheckBinlogRowFormat env c1 = Inr c"
    by (auto split: sum.splits)
  then show ?thesis by (rule withCheckBinlogRowFormat_ok)
qed

lemma NewCanal_mixed_format:
  "NewCanal mixedEnv scenarioDSN (WithMySQL mixedEnv) [] =
     Inl (Error NotSupported
       ''[binlogsync] binlog variable must have the configured ROW format'')"
  by (simp add: construct_defs mixedEnv_def scenarioEnv_def scenarioConfig_def scenarioDSN_def
        decimal_4 decimal_101 decimal_3306 Let_def)

text \<open>
  The image check, for the mysql flavor and a variable that loads: the
  \<open>NotSupported\<close> error is returned exactly when the server's image equals the wanted
  one.
\<close>

lemma CheckBinlogRowImage_condition:
  "flavor c = MySQLFlavor \<Longrightarrow> dbcp c = Some pool \<Longrightarrow>
   LoadVariables env ''binlog_row_image'' = Inr vdata \<Longrightarrow>
   (\<exists>e. CheckBinlogRowImage env img c = Some e \<and> errKind e = NotSupported) =
     EqualFold vdata ''binlog_row_image'' img"
  by (simp add: CheckBinlogRowImage_def)

text \<open>
  Claim C9, at the open client (mysql flavor).  When the server's
  \<^verbatim>\<open>binlog_row_image\<close> is FULL and FULL is asked for, \<open>CheckBinlogRowImage\<close> returns a
  \<open>NotSupported\<close> error; when the server's image is MINIMAL and FULL is asked for, it
  returns nil.
\<close>

theorem CheckBinlogRowImage_inverted:
  "CheckBinlogRowImage (scenarioEnv serverStatus) ''FULL'' openCanal =
     Some (Error NotSupported
       ''[binlogsync] MySQL uses another binlog row image than we want'') \<and>
   CheckBinlogRowImage minimalEnv ''FULL'' openCanal = None"
  by (simp add: CheckBinlogRowImage_def flavor_def MySQLFlavor_def MariaDBFlavor_def
        EqualFold_def foldChar_def minimalEnv_def scenarioEnv_def openCanal_def Let_def)

section \<open>Custom DSN parameters\<close>

text \<open>
  The loop over the custom parameters, for every parameter map: a key is removed from
  the DSN parameters and copied to the client's map exactly when it is one of the
  listed keys and has a non-empty text.
\<close>

lemma stripParams_removed:
  "fst (stripParams ps m cps) p =
     (if p \<in> set ps \<and> (\<exists>v. m p = Some v \<and> v \<noteq> []) then None else m p)"
proof (induction ps arbitrary: m cps)
  case Nil
  then show ?case by simp
next
  case (Cons q ps)
  show ?case
    by (cases "m q") (auto simp add: Cons.IH)
qed

lemma stripParams_kept:
  "snd (stripParams ps m cps) p =
     (if p \<in> set ps \<and> (\<exists>v. m p = Some v \<and> v \<noteq> []) then m p else cps p)"
proof (induction ps arbitrary: m cps)
  case Nil
  then show ?case by simp
next
  case (Cons q ps)
  show ?case
    by (cases "m q") (auto simp add: Cons.IH)
qed

text \<open>The client that \<open>NewCanal\<close> returns for the DSN of the scenario.\<close>

lemma NewCanal_scenario_value:
  "NewCanal (scenarioEnv ms) scenarioDSN (WithMySQL (scenarioEnv ms)) [] =
     Inr \<lparr>dsn = scenarioConfig\<lparr>Params := Some Map.empty\<rparr>,
          canalParams = [''BinlogStartFile'' \<mapsto> ''bin.000005'',
                         ''BinlogStartPosition'' \<mapsto> ''4'',
                         ''BinlogSlaveId'' \<mapsto> ''101''],
          cfgBackend = None,
          masterStatus = ms\<lparr>File := ''bin.000005'', Position := 4\<rparr>,
          masterLastSaveTime = 0,
          syncer = Some \<lparr>ServerID = 101, Flavor = ''mysql'', Host = ''host'', Port = 3306,
                          SyncUser = ''user'', SyncPassword = ''pass''\<rparr>,
          dbcp = Some (scenarioConfig\<lparr>Params := Some Map.empty\<rparr>),
          tables = \<lparr>TablesSchema = ''shop'', tm = Map.empty\<rparr>,
          closed = 0,
          logIsDebug = False,
          logIsInfo = False,
          effects = []\<rparr>"
  by (simp add: construct_defs scenarioEnv_def scenarioConfig_def scenarioDSN_def
        decimal_4 decimal_101 decimal_3306 Let_def fun_upd_twist)

text \<open>A start position below 4 leaves the position that the server reported.\<close>

lemma withUpdateBinlogStart_low_position:
  "dbcp c = Some pool \<Longrightarrow> LoadMasterStatus env = Inr ms \<Longrightarrow>
   canalParams c ''BinlogStartPosition'' = Some v \<Longrightarrow> ToUint env v < 4 \<Longrightarrow>
   \<exists>c1. withUpdateBinlogStart env c = Inr c1 \<and> Position (masterStatus c1) = Position ms"
  by (auto simp add: withUpdateBinlogStart_def Let_def split: option.split)

text \<open>Without the parameter \<open>BinlogSlaveId\<close> the syncer gets the server ID 100.\<close>

lemma withPrepareSyncer_default_id:
  "SplitHostPort env (Addr (dsn c)) = Inr (h, pt) \<Longrightarrow> canalParams c ''BinlogSlaveId'' = None \<Longrightarrow>
   \<exists>c1. withPrepareSyncer env c = Inr c1 \<and> map_option ServerID (syncer c1) = Some 100"
  by (simp add: withPrepareSyncer_def Let_def)

text \<open>
  Claim C10.  For the DSN of the scenario and every master status \<open>ms\<close> of the server,
  \<open>NewCanal\<close> returns a client whose DSN parameters are empty, whose connection pool
  was opened with that stripped DSN, whose master position is the file
  \<open>bin.000005\<close> and the offset 4, and whose syncer has the server ID 101.
  And for every client with a pool and every server: when the supplied start position
  converts to a number below 4, \<open>withUpdateBinlogStart\<close> keeps the position that the
  server reported.
\<close>

theorem NewCanal_scenario:
  "(\<exists>c. NewCanal (scenarioEnv ms) scenarioDSN (WithMySQL (scenarioEnv ms)) [] = Inr c \<and>
        Params (dsn c) = Some Map.empty \<and>
        dbcp c = Some (dsn c) \<and>
        File (masterStatus c) = ''bin.000005'' \<and>
        Position (masterStatus c) = 4 \<and>
        map_option ServerID (syncer c) = Some 101) \<and>
   (dbcp c0 = Some pool \<and> LoadMasterStatus env = Inr ms0 \<and>
    canalParams c0 ''BinlogStartPosition'' = Some v \<and> ToUint env v < 4 \<longrightarrow>
      (\<exists>c1. withUpdateBinlogStart env c0 = Inr c1 \<and>
            Position (masterStatus c1) = Position ms0))"
  using withUpdateBinlogStart_low_position [of c0 pool env ms0 v]
  by (simp add: NewCanal_scenario_value)

text \<open>
  The theorem at the server status \<open>serverStatus\<close> and at a client whose DSN carried
  the start position 3: the position stays the server's 1500.
\<close>

theorem NewCanal_scenario_witness:
  "dbcp lowStartCanal = Some (dsn lowStartCanal) \<and>
   LoadMasterStatus (scenarioEnv serverStatus) = Inr serverStatus \<and>
   canalParams lowStartCanal ''BinlogStartPosition'' = Some ''3'' \<and>
   ToUint (scenarioEnv serverStatus) ''3'' < 4 \<and>
   (\<exists>c1. withUpdateBinlogStart (scenarioEnv serverStatus) lowStartCanal = Inr c1 \<and>
         Position (masterStatus c1) = 1500) \<and>
   (\<exists>c. NewCanal (scenarioEnv serverStatus) scenarioDSN
          (WithMySQL (scenarioEnv serverStatus)) [] = Inr c \<and>
        Params (dsn c) = Some Map.empty \<and>
        dbcp c = Some (dsn c) \<and>
        File (masterStatus c) = ''bin.000005'' \<and>
        Position (masterStatus c) = 4 \<and>
        map_option ServerID (syncer c) = Some 101)"
proof -
  have h: "dbcp lowStartCanal = Some (dsn lowStartCanal)"
    "LoadMasterStatus (scenarioEnv serverStatus) = Inr serverStatus"
    "canalParams lowStartCanal ''BinlogStartPosition'' = Some ''3''"
    "ToUint (scenarioEnv serverStatus) ''3'' < 4"
    by (simp_all add: lowStartCanal_def openCanal_def scenarioEnv_def decimal_def isDigit_def)
  have p: "Position serverStatus = 1500" by (simp add: serverStatus_def)
  from NewCanal_scenario [of serverStatus lowStartCanal "dsn lowStartCanal"
      "scenarioEnv serverStatus" serverStatus "''3''"] h p
  show ?thesis by simp
qed

end
